theory Spec2Isabelle
  imports Main "HOL-Library.Word"
begin

unbundle bit_operations_syntax

section \<open>Values shared by the whole package\<close>

text \<open>
  Go's \<^verbatim>\<open>byte\<close> is an unsigned 8-bit integer and \<^verbatim>\<open>rune\<close> is \<^verbatim>\<open>int32\<close>;
  \<^verbatim>\<open>int64\<close> and \<^verbatim>\<open>int\<close> (64 bits on the usual targets) are 64-bit words whose
  addition wraps, read as signed numbers with \<open>sint\<close> where the code compares or indexes.
\<close>

type_synonym byte = "8 word"
type_synonym rune = "32 word"

record Position =
  Offset :: "64 word"
  Line :: "64 word"
  Column :: "64 word"

text \<open>
  The error values of the package: \<^verbatim>\<open>io.EOF\<close>, \<^verbatim>\<open>ErrNoMatch\<close> (parser.go), the struct
  \<^verbatim>\<open>RuneError{Position}\<close> (state.go), and any other error a reader may hand back.
\<close>

datatype error = io_EOF | ErrNoMatch | RuneError Position | ReadFailure nat

text \<open>
  A call either returns, panics (nil dereference, index or slice bound out of range,
  the explicit \<^verbatim>\<open>panic\<close> of \<^verbatim>\<open>nextDataState\<close>), or is cut off because the fuel that
  bounds its recursion ran out.
\<close>

datatype 'a run = OutOfFuel | Panic | Return 'a

definition run_bind :: "'a run \<Rightarrow> ('a \<Rightarrow> 'b run) \<Rightarrow> 'b run" where
  "run_bind m f = (case m of OutOfFuel \<Rightarrow> OutOfFuel | Panic \<Rightarrow> Panic | Return x \<Rightarrow> f x)"

text \<open>
  A slice expression \<^verbatim>\<open>b[lo:hi]\<close> over the bytes \<open>bs\<close> that \<^verbatim>\<open>b\<close> can reach (up to its
  capacity): Go panics unless \<open>0 \<le> lo \<le> hi \<le> cap\<close>.
\<close>

definition reslice :: "byte list \<Rightarrow> int \<Rightarrow> int \<Rightarrow> byte list option" where
  "reslice bs lo hi =
     (if 0 \<le> lo \<and> lo \<le> hi \<and> hi \<le> int (length bs)
      then Some (take (nat hi - nat lo) (drop (nat lo) bs)) else None)"

text \<open>
  The builtin \<^verbatim>\<open>copy(dst[p:], src)\<close> for \<open>p \<le> length dst\<close>: it overwrites as many bytes
  as fit and reports how many.
\<close>

definition copy_at :: "byte list \<Rightarrow> nat \<Rightarrow> byte list \<Rightarrow> byte list \<times> nat" where
  "copy_at dst p src =
     (let k = min (length dst - p) (length src)
      in (take p dst @ take k src @ drop (p + k) dst, k))"

section \<open>unicode/utf8.DecodeRune\<close>

text \<open>
  The decoder of Go's standard library, which \<^verbatim>\<open>State.Rune\<close> calls: the table
  \<^verbatim>\<open>first\<close> of lead bytes, the table \<^verbatim>\<open>acceptRanges\<close> for the second byte, and
  \<^verbatim>\<open>DecodeRune\<close> itself. An empty input gives \<open>(RuneError, 0)\<close>, an invalid encoding
  \<open>(RuneError, 1)\<close>; \<^verbatim>\<open>utf8.RuneError\<close> is the code point U+FFFD.
\<close>

definition utf8_RuneError :: rune where
  "utf8_RuneError = 0xFFFD"

definition first :: "byte \<Rightarrow> byte" where
  "first p0 =
     (if p0 < 0x80 then 0xF0
      else if p0 < 0xC2 then 0xF1
      else if p0 < 0xE0 then 0x02
      else if p0 = 0xE0 then 0x13
      else if p0 < 0xED then 0x03
      else if p0 = 0xED then 0x23
      else if p0 < 0xF0 then 0x03
      else if p0 = 0xF0 then 0x34
      else if p0 < 0xF4 then 0x04
      else if p0 = 0xF4 then 0x44
      else 0xF1)"

definition acceptRanges :: "byte \<Rightarrow> byte \<times> byte" where
  "acceptRanges i =
     (if i = 0 then (0x80, 0xBF)
      else if i = 1 then (0xA0, 0xBF)
      else if i = 2 then (0x80, 0x9F)
      else if i = 3 then (0x90, 0xBF)
      else if i = 4 then (0x80, 0x8F)
      else (0, 0))"

definition DecodeRune :: "byte list \<Rightarrow> rune \<times> nat" where
  "DecodeRune p =
     (let n = length p in
      if n < 1 then (utf8_RuneError, 0)
      else
        let p0 = p ! 0; x = first p0 in
        if 0xF0 \<le> x then
          (let mask = signed_drop_bit 31 (push_bit 31 (ucast x :: rune))
           in (((ucast p0 :: rune) AND NOT mask) OR (utf8_RuneError AND mask), 1))
        else
          let sz = unat (x AND 7); accept = acceptRanges (drop_bit 4 x) in
          if n < sz then (utf8_RuneError, 1)
          else
            let b1 = p ! 1 in
            if b1 < fst accept \<or> snd accept < b1 then (utf8_RuneError, 1)
            else if sz \<le> 2 then
              (push_bit 6 (ucast (p0 AND 0x1F)) OR ucast (b1 AND 0x3F), 2)
            else
              let b2 = p ! 2 in
              if b2 < 0x80 \<or> 0xBF < b2 then (utf8_RuneError, 1)
              else if sz \<le> 3 then
                (push_bit 12 (ucast (p0 AND 0x0F)) OR push_bit 6 (ucast (b1 AND 0x3F))
                   OR ucast (b2 AND 0x3F), 3)
              else
                let b3 = p ! 3 in
                if b3 < 0x80 \<or> 0xBF < b3 then (utf8_RuneError, 1)
                else
                  (push_bit 18 (ucast (p0 AND 0x07)) OR push_bit 12 (ucast (b1 AND 0x3F))
                     OR push_bit 6 (ucast (b2 AND 0x3F)) OR ucast (b3 AND 0x3F), 4))"


section \<open>The in-memory cursor (the \<^verbatim>\<open>State\<close> with a \<^verbatim>\<open>buffer\<close> field)\<close>

text \<open>
  The first of the two \<^verbatim>\<open>State\<close> structs of the sources: a byte buffer and an offset.
  It is the one parser.go's \<^verbatim>\<open>DoParse\<close>, \<^verbatim>\<open>GetString\<close> and \<^verbatim>\<open>GetBytes\<close> are written
  against (they read \<^verbatim>\<open>s.buffer\<close>). The buffer is held by value with capacity equal
  to its length.
\<close>

record BufferState =
  buffer :: "byte list"
  buffer_offset :: "64 word"
  lineCount :: "64 word"
  lineOffset :: "64 word"

definition BufferState_consume :: "BufferState \<Rightarrow> int \<Rightarrow> BufferState \<times> error option" where
  "BufferState_consume s sz = (s\<lparr>buffer_offset := buffer_offset s + word_of_int sz\<rparr>, None)"

definition BufferState_Rune :: "BufferState \<Rightarrow> (rune \<times> BufferState \<times> error option) run" where
  "BufferState_Rune s =
     (case reslice (buffer s) (sint (buffer_offset s)) (int (length (buffer s))) of
        None \<Rightarrow> Panic
      | Some rest \<Rightarrow>
          let (r, rs) = DecodeRune rest; (next, err) = BufferState_consume s (int rs)
          in Return (r, next, err))"

definition BufferState_Byte :: "BufferState \<Rightarrow> (byte \<times> BufferState \<times> error option) run" where
  "BufferState_Byte s =
     (let i = sint (buffer_offset s) in
      if i < 0 \<or> int (length (buffer s)) \<le> i then Panic
      else
        let b = buffer s ! nat i; (next, err) = BufferState_consume s 1
        in Return (b, next, err))"

definition BufferState_Line :: "BufferState \<Rightarrow> 64 word" where
  "BufferState_Line s = lineCount s + 1"

definition BufferState_Column :: "BufferState \<Rightarrow> 64 word" where
  "BufferState_Column s = buffer_offset s - lineOffset s"

definition BufferState_Position :: "BufferState \<Rightarrow> Position" where
  "BufferState_Position s =
     \<lparr>Offset = buffer_offset s, Line = BufferState_Line s, Column = BufferState_Column s\<rparr>"

section \<open>The store: byte arrays, data nodes and the reader\<close>

text \<open>
  A \<^verbatim>\<open>[]byte\<close> is a reference into a backing array, so the arrays live in a store and
  a slice is a descriptor: the array, where the slice starts, its length and capacity.
  The \<^verbatim>\<open>*data\<close> nodes live in the store too, addressed by their index; an allocation
  appends. An \<^verbatim>\<open>io.Reader\<close> is an object whose \<^verbatim>\<open>Read(p)\<close> answers for a buffer of
  \<open>length p\<close> with the bytes it wrote (\<open>n\<close> is their number), an error, and the
  reader as it is afterwards. The store holds the one reader a chain is built over; a
  node's \<^verbatim>\<open>r\<close> field records whether it still refers to it (\<open>True\<close>) or is nil.
  An address outside the store, which no Go pointer can be, makes a call panic like a nil
  pointer does.
\<close>

record slice =
  slice_arr :: nat
  slice_off :: nat
  slice_len :: nat
  slice_cap :: nat

record data =
  data_r :: bool
  data_err :: "error option"
  data_buf :: slice
  data_next :: "nat option"

codatatype reader = Reader (Read: "nat \<Rightarrow> byte list \<times> error option \<times> reader")

record world =
  arrays :: "byte list list"
  nodes :: "data list"
  source :: reader

definition node_at :: "world \<Rightarrow> nat \<Rightarrow> data option" where
  "node_at w a = (if a < length (nodes w) then Some (nodes w ! a) else None)"

definition slice_bytes :: "world \<Rightarrow> slice \<Rightarrow> byte list option" where
  "slice_bytes w sl =
     (if slice_arr sl < length (arrays w)
      then Some (take (slice_len sl) (drop (slice_off sl) (arrays w ! slice_arr sl)))
      else None)"

definition slice_full :: "world \<Rightarrow> slice \<Rightarrow> byte list option" where
  "slice_full w sl =
     (if slice_arr sl < length (arrays w)
      then Some (take (slice_cap sl) (drop (slice_off sl) (arrays w ! slice_arr sl)))
      else None)"

definition set_next :: "world \<Rightarrow> nat \<Rightarrow> nat \<Rightarrow> world" where
  "set_next w a a1 = w\<lparr>nodes := (nodes w)[a := (nodes w ! a)\<lparr>data_next := Some a1\<rparr>]\<rparr>"

text \<open>\<^verbatim>\<open>make([]byte, n)\<close> followed by \<^verbatim>\<open>copy\<close>: a fresh array holding \<open>bs\<close>.\<close>

definition alloc_bytes :: "world \<Rightarrow> byte list \<Rightarrow> nat \<Rightarrow> world \<times> slice" where
  "alloc_bytes w bs c =
     (w\<lparr>arrays := arrays w @ [bs @ replicate (c - length bs) 0]\<rparr>,
      \<lparr>slice_arr = length (arrays w), slice_off = 0, slice_len = length bs, slice_cap = c\<rparr>)"

definition alloc_data :: "world \<Rightarrow> data \<Rightarrow> world \<times> nat" where
  "alloc_data w d = (w\<lparr>nodes := nodes w @ [d]\<rparr>, length (nodes w))"

text \<open>\<^verbatim>\<open>newDataString\<close>: the conversion \<^verbatim>\<open>[]byte(s)\<close> allocates.\<close>

definition newDataString :: "world \<Rightarrow> byte list \<Rightarrow> world \<times> nat" where
  "newDataString w s =
     (let (w1, b) = alloc_bytes w s (length s)
      in alloc_data w1 \<lparr>data_r = False, data_err = None, data_buf = b, data_next = None\<rparr>)"

text \<open>\<^verbatim>\<open>newDataBytes\<close>: \<^verbatim>\<open>make([]byte, len(b))\<close>, then \<^verbatim>\<open>copy(d.buf, b)\<close>.\<close>

definition newDataBytes :: "world \<Rightarrow> slice \<Rightarrow> (world \<times> nat) run" where
  "newDataBytes w b =
     (case slice_bytes w b of
        None \<Rightarrow> Panic
      | Some bs \<Rightarrow>
          let (w1, buf) = alloc_bytes w (replicate (length bs) 0) (length bs);
              w2 = w1\<lparr>arrays := (arrays w1)[slice_arr buf := fst (copy_at (arrays w1 ! slice_arr buf) 0 bs)]\<rparr>
          in Return (alloc_data w2 \<lparr>data_r = False, data_err = None, data_buf = buf, data_next = None\<rparr>))"

definition minDataSize :: int where
  "minDataSize = 8"

text \<open>
  \<^verbatim>\<open>newDataReaderSize\<close>: one \<^verbatim>\<open>Read\<close> into a fresh buffer of \<open>size\<close> bytes; the buffer
  is cut to the \<open>n\<close> bytes read (a panic when the reader reports more than it was
  given room for); on \<^verbatim>\<open>io.EOF\<close> the error and the reader are dropped.
\<close>

definition newDataReaderSize :: "world \<Rightarrow> nat \<Rightarrow> (world \<times> nat) run" where
  "newDataReaderSize w sz =
     (let (bs, e, rd) = Read (source w) sz in
      if sz < length bs then Panic
      else
        let (w1, b) = alloc_bytes w bs sz;
            d = \<lparr>data_r = (e \<noteq> Some io_EOF),
                 data_err = (if e = Some io_EOF then None else e),
                 data_buf = b, data_next = None\<rparr>
        in Return (alloc_data (w1\<lparr>source := rd\<rparr>) d))"

section \<open>The chunked cursor (the \<^verbatim>\<open>State\<close> with a \<^verbatim>\<open>data\<close> field)\<close>

record State =
  data :: "nat option"
  datap :: int
  offset :: "64 word"
  line :: "64 word"
  column :: "64 word"

definition zero_State :: State where
  "zero_State = \<lparr>data = None, datap = 0, offset = 0, line = 0, column = 0\<rparr>"

definition NewStateString :: "world \<Rightarrow> byte list \<Rightarrow> world \<times> State" where
  "NewStateString w s = (let (w1, a) = newDataString w s in (w1, zero_State\<lparr>data := Some a\<rparr>))"

definition NewStateBytes :: "world \<Rightarrow> slice \<Rightarrow> (world \<times> State) run" where
  "NewStateBytes w b =
     run_bind (newDataBytes w b) (\<lambda>(w1, a). Return (w1, zero_State\<lparr>data := Some a\<rparr>))"

definition NewStateReaderSize :: "world \<Rightarrow> int \<Rightarrow> (world \<times> State) run" where
  "NewStateReaderSize w sz =
     run_bind (newDataReaderSize w (nat (max sz minDataSize)))
       (\<lambda>(w1, a). Return (w1, zero_State\<lparr>data := Some a\<rparr>))"

definition NewStateReader :: "world \<Rightarrow> (world \<times> State) run" where
  "NewStateReader w = NewStateReaderSize w 1024"

definition State_Line :: "State \<Rightarrow> 64 word" where
  "State_Line s = line s + 1"

definition State_Column :: "State \<Rightarrow> 64 word" where
  "State_Column s = column s + 1"

definition State_Position :: "State \<Rightarrow> Position" where
  "State_Position s = \<lparr>Offset = offset s, Line = State_Line s, Column = State_Column s\<rparr>"

definition nextDataState :: "world \<Rightarrow> State \<Rightarrow> State run" where
  "nextDataState w s =
     (case data s of
        None \<Rightarrow> Panic
      | Some a \<Rightarrow>
          (case node_at w a of
             None \<Rightarrow> Panic
           | Some d \<Rightarrow>
               (case data_next d of
                  None \<Rightarrow> Panic
                | Some a1 \<Rightarrow> Return (s\<lparr>data := Some a1, datap := 0\<rparr>))))"

definition consume :: "State \<Rightarrow> int \<Rightarrow> rune \<Rightarrow> State \<times> error option" where
  "consume s count v =
     (let s1 = s\<lparr>datap := datap s + count, offset := offset s + word_of_int count,
                 column := column s + 1\<rparr>;
          s2 = (if v = 0x0A then s1\<lparr>line := line s1 + 1, column := 0\<rparr> else s1)
      in (s2, None))"

text \<open>
  \<^verbatim>\<open>s.data.next = newDataReaderSize(s.data.r, cap(s.data.buf))\<close>, the statement that
  extends the chain at node \<open>a\<close>.
\<close>

definition extend_chain :: "world \<Rightarrow> nat \<Rightarrow> data \<Rightarrow> world run" where
  "extend_chain w a d =
     run_bind (newDataReaderSize w (slice_cap (data_buf d))) (\<lambda>(w1, a1). Return (set_next w1 a a1))"

text \<open>
  \<^verbatim>\<open>State.Byte\<close>. The method calls itself on the state of the next node; \<open>rec\<close>
  stands for that call, and the fuel of \<open>Byte\<close> counts the nodes it may walk.
\<close>

definition Byte_body ::
  "(world \<Rightarrow> State \<Rightarrow> (world \<times> byte \<times> State \<times> error option) run) \<Rightarrow>
   world \<Rightarrow> State \<Rightarrow> (world \<times> byte \<times> State \<times> error option) run" where
  "Byte_body rec w s =
     (case data s of
        None \<Rightarrow> Panic
      | Some a \<Rightarrow>
     (case node_at w a of
        None \<Rightarrow> Panic
      | Some d \<Rightarrow>
     (case slice_bytes w (data_buf d) of
        None \<Rightarrow> Panic
      | Some bs \<Rightarrow>
          if datap s < int (length bs) then
            (if datap s < 0 then Panic
             else
               let b = bs ! nat (datap s); (next, err) = consume s 1 (ucast b)
               in Return (w, b, next, err))
          else if data_r d \<and> data_next d = None then
            run_bind (extend_chain w a d) (\<lambda>w1.
              run_bind (nextDataState w1 s) (\<lambda>s1. rec w1 s1))
          else if data_next d \<noteq> None then
            run_bind (nextDataState w s) (\<lambda>s1. rec w s1)
          else Return (w, 0, s, Some io_EOF))))"

fun Byte :: "nat \<Rightarrow> world \<Rightarrow> State \<Rightarrow> (world \<times> byte \<times> State \<times> error option) run" where
  "Byte 0 w s = Byte_body (\<lambda>w1 s1. OutOfFuel) w s"
| "Byte (Suc n) w s = Byte_body (Byte n) w s"

text \<open>
  \<^verbatim>\<open>State.Rune\<close>. When the decode of the bytes left in the node gives
  \<^verbatim>\<open>utf8.RuneError\<close> and the node still has its reader, the chain is extended if it has
  to be and \<open>Rune_across\<close> takes over: the bytes left are joined with up to six bytes of
  \<^verbatim>\<open>s.data.next.buf\<close> and decoded again; a success there returns the state that
  \<^verbatim>\<open>nextDataState\<close> builds, with only \<^verbatim>\<open>datap\<close> set afterwards. The line that
  \<^verbatim>\<open>log.Println\<close> writes on the way to an existing next node is not modelled.
\<close>

definition node_next :: "world \<Rightarrow> nat \<Rightarrow> nat run" where
  "node_next w a =
     (case node_at w a of
        None \<Rightarrow> Panic
      | Some d \<Rightarrow> (case data_next d of None \<Rightarrow> Panic | Some a1 \<Rightarrow> Return a1))"

definition node_buf :: "world \<Rightarrow> nat \<Rightarrow> byte list run" where
  "node_buf w a =
     (case node_at w a of
        None \<Rightarrow> Panic
      | Some d \<Rightarrow> (case slice_bytes w (data_buf d) of None \<Rightarrow> Panic | Some bs \<Rightarrow> Return bs))"

definition Rune_across :: "world \<Rightarrow> nat \<Rightarrow> State \<Rightarrow> byte list \<Rightarrow> (rune \<times> State \<times> error option) run" where
  "Rune_across w a s bs =
     run_bind (node_next w a) (\<lambda>a1.
     run_bind (node_buf w a1) (\<lambda>nbs.
       let nextDataPMax = min (length nbs) 6;
           runeBytes = drop (nat (datap s)) bs @ take nextDataPMax nbs;
           (r, rs) = DecodeRune runeBytes
       in
         if r = utf8_RuneError then Return (0, s, Some (RuneError (State_Position s)))
         else
           run_bind (nextDataState w s) (\<lambda>nextState.
             Return (r, nextState\<lparr>datap := int rs - (int (length bs) - datap s)\<rparr>, None))))"

definition Rune_body ::
  "(world \<Rightarrow> State \<Rightarrow> (world \<times> rune \<times> State \<times> error option) run) \<Rightarrow>
   world \<Rightarrow> State \<Rightarrow> (world \<times> rune \<times> State \<times> error option) run" where
  "Rune_body rec w s =
     (case data s of
        None \<Rightarrow> Panic
      | Some a \<Rightarrow>
     (case node_at w a of
        None \<Rightarrow> Panic
      | Some d \<Rightarrow>
     (case slice_bytes w (data_buf d) of
        None \<Rightarrow> Panic
      | Some bs \<Rightarrow>
          if datap s < int (length bs) then
            (if datap s < 0 then Panic
             else
               let (r, rs) = DecodeRune (drop (nat (datap s)) bs) in
               if r = utf8_RuneError then
                 (if \<not> data_r d then Return (w, 0, s, Some (RuneError (State_Position s)))
                  else
                    run_bind (if data_next d = None then extend_chain w a d else Return w) (\<lambda>w1.
                    run_bind (Rune_across w1 a s bs) (\<lambda>res. Return (w1, res))))
               else
                 let (next, err) = consume s (int rs) r in Return (w, r, next, err))
          else if data_r d \<and> data_next d = None then
            run_bind (extend_chain w a d) (\<lambda>w1.
              run_bind (nextDataState w1 s) (\<lambda>s1. rec w1 s1))
          else if data_next d \<noteq> None then
            run_bind (nextDataState w s) (\<lambda>s1. rec w s1)
          else Return (w, 0, s, Some io_EOF))))"

fun Rune :: "nat \<Rightarrow> world \<Rightarrow> State \<Rightarrow> (world \<times> rune \<times> State \<times> error option) run" where
  "Rune 0 w s = Rune_body (\<lambda>w1 s1. OutOfFuel) w s"
| "Rune (Suc n) w s = Rune_body (Rune n) w s"

text \<open>
  The bytes of \<^verbatim>\<open>s.data.buf\<close> up to its length and up to its capacity; a nil
  \<^verbatim>\<open>s.data\<close> panics.
\<close>

definition State_buf :: "world \<Rightarrow> State \<Rightarrow> byte list run" where
  "State_buf w s =
     (case data s of
        None \<Rightarrow> Panic
      | Some a \<Rightarrow>
          (case node_at w a of
             None \<Rightarrow> Panic
           | Some d \<Rightarrow>
               (case slice_bytes w (data_buf d) of None \<Rightarrow> Panic | Some bs \<Rightarrow> Return bs)))"

definition State_buf_full :: "world \<Rightarrow> State \<Rightarrow> byte list run" where
  "State_buf_full w s =
     (case data s of
        None \<Rightarrow> Panic
      | Some a \<Rightarrow>
          (case node_at w a of
             None \<Rightarrow> Panic
           | Some d \<Rightarrow>
               (case slice_full w (data_buf d) of None \<Rightarrow> Panic | Some bs \<Rightarrow> Return bs)))"

definition slice_expr :: "byte list \<Rightarrow> int \<Rightarrow> int \<Rightarrow> byte list run" where
  "slice_expr bs lo hi = (case reslice bs lo hi of None \<Rightarrow> Panic | Some xs \<Rightarrow> Return xs)"

text \<open>
  \<^verbatim>\<open>keepBytes\<close>. Two states on the same node give a copy of the slice between their
  \<^verbatim>\<open>datap\<close>; otherwise a result of \<^verbatim>\<open>end.offset - start.offset\<close> bytes is filled from
  the rest of the start node, every node up to the end node, and the head of the end
  node. The loop over the chain is bounded by fuel.
\<close>

fun keepBytes_loop ::
  "nat \<Rightarrow> world \<Rightarrow> byte list \<Rightarrow> nat \<Rightarrow> State \<Rightarrow> State \<Rightarrow> (byte list \<times> nat) run" where
  "keepBytes_loop 0 w result resultp current end_state =
     (if data current \<noteq> data end_state then OutOfFuel else Return (result, resultp))"
| "keepBytes_loop (Suc k) w result resultp current end_state =
     (if data current \<noteq> data end_state then
        run_bind (State_buf w current) (\<lambda>bs.
          let (result1, n) = copy_at result resultp bs in
          run_bind (nextDataState w current) (\<lambda>current1.
            keepBytes_loop k w result1 (resultp + n) current1 end_state))
      else Return (result, resultp))"

definition keepBytes :: "nat \<Rightarrow> world \<Rightarrow> State \<Rightarrow> State \<Rightarrow> byte list run" where
  "keepBytes k w start end_state =
     (if data start = data end_state then
        run_bind (State_buf_full w start) (\<lambda>full.
          slice_expr full (datap start) (datap end_state))
      else
        (let total = sint (offset end_state - offset start) in
         if total < 0 then Panic
         else
           run_bind (State_buf w start) (\<lambda>bs.
           run_bind (slice_expr bs (datap start) (int (length bs))) (\<lambda>tail.
             let (result, resultp) = copy_at (replicate (nat total) 0) 0 tail in
             run_bind (nextDataState w start) (\<lambda>current.
             run_bind (keepBytes_loop k w result resultp current end_state) (\<lambda>(result1, resultp1).
             run_bind (State_buf_full w end_state) (\<lambda>efull.
             run_bind (slice_expr efull 0 (datap end_state)) (\<lambda>head.
               Return (fst (copy_at result1 resultp1 head))))))))))"

section \<open>The combinators of parser.go\<close>

text \<open>
  \<^verbatim>\<open>Parser[T]\<close> is \<^verbatim>\<open>func(State) (T, State, error)\<close>. A parser runs in a store, which
  the reads of the chunked cursor extend, and with the fuel it hands to each read; the
  error is \<open>None\<close> for \<^verbatim>\<open>nil\<close>. The combinators that call no method of the state
  (\<^verbatim>\<open>AndThen\<close>, \<^verbatim>\<open>Sequence2\<close>) are the same for both \<^verbatim>\<open>State\<close> structs; those that
  call \<^verbatim>\<open>Rune\<close>, \<^verbatim>\<open>Byte\<close> or \<^verbatim>\<open>Position\<close> take the method as an argument. The zero
  value of a result type is an argument too.
\<close>

type_synonym ('w, 's, 't) Parser = "nat \<Rightarrow> 'w \<Rightarrow> 's \<Rightarrow> ('w \<times> 't \<times> 's \<times> error option) run"

datatype Empty = Empty

text \<open>The methods of the in-memory cursor as parsers: they leave the store alone.\<close>

definition BufferState_Rune_op :: "('w, BufferState, rune) Parser" where
  "BufferState_Rune_op = (\<lambda>n w s. run_bind (BufferState_Rune s) (\<lambda>x. Return (w, x)))"

definition BufferState_Byte_op :: "('w, BufferState, byte) Parser" where
  "BufferState_Byte_op = (\<lambda>n w s. run_bind (BufferState_Byte s) (\<lambda>x. Return (w, x)))"

definition DoParse :: "('w, BufferState, 't) Parser \<Rightarrow> byte list \<Rightarrow> nat \<Rightarrow> 'w \<Rightarrow> ('w \<times> 't \<times> error option) run" where
  "DoParse parser input n w =
     (let state = \<lparr>buffer = input, buffer_offset = 0, lineCount = 0, lineOffset = 0\<rparr>
      in run_bind (parser n w state) (\<lambda>(w1, result, next, err). Return (w1, result, err)))"

definition AndThen ::
  "'u \<Rightarrow> ('w, 's, 't) Parser \<Rightarrow> ('t \<Rightarrow> ('w, 's, 'u) Parser) \<Rightarrow> ('w, 's, 'u) Parser" where
  "AndThen zero parser handler =
     (\<lambda>n w s.
        run_bind (parser n w s) (\<lambda>(w1, t, next, err).
          if err \<noteq> None then Return (w1, zero, s, err)
          else handler t n w1 next))"

text \<open>
  \<^verbatim>\<open>for _, tokenRune := range token\<close> walks the string by decoding it; an invalid byte
  counts as U+FFFD of width one.
\<close>

function string_runes :: "byte list \<Rightarrow> rune list" where
  "string_runes bs =
     (if bs = [] then []
      else fst (DecodeRune bs) # string_runes (drop (snd (DecodeRune bs)) bs))"
  by pat_completeness auto
termination
  by (relation "measure length") (auto simp: DecodeRune_def Let_def)

fun ExactString_loop ::
  "('w, 's, rune) Parser \<Rightarrow> rune list \<Rightarrow> nat \<Rightarrow> 'w \<Rightarrow> 's \<Rightarrow> 's \<Rightarrow> ('w \<times> Empty \<times> 's \<times> error option) run" where
  "ExactString_loop Rune_op [] n w s next = Return (w, Empty, next, None)"
| "ExactString_loop Rune_op (tokenRune # rest) n w s next =
     run_bind (Rune_op n w next) (\<lambda>(w1, r, next1, err).
       if err \<noteq> None then Return (w1, Empty, s, err)
       else if tokenRune \<noteq> r then Return (w1, Empty, s, Some ErrNoMatch)
       else ExactString_loop Rune_op rest n w1 s next1)"

definition ExactString :: "('w, 's, rune) Parser \<Rightarrow> byte list \<Rightarrow> ('w, 's, Empty) Parser" where
  "ExactString Rune_op token = (\<lambda>n w s. ExactString_loop Rune_op (string_runes token) n w s s)"

fun ExactBytes_loop ::
  "('w, 's, byte) Parser \<Rightarrow> byte list \<Rightarrow> nat \<Rightarrow> 'w \<Rightarrow> 's \<Rightarrow> 's \<Rightarrow> ('w \<times> Empty \<times> 's \<times> error option) run" where
  "ExactBytes_loop Byte_op [] n w s next = Return (w, Empty, next, None)"
| "ExactBytes_loop Byte_op (tokenByte # rest) n w s next =
     run_bind (Byte_op n w next) (\<lambda>(w1, b, next1, err).
       if err \<noteq> None then Return (w1, Empty, s, err)
       else if tokenByte \<noteq> b then Return (w1, Empty, s, Some ErrNoMatch)
       else ExactBytes_loop Byte_op rest n w1 s next1)"

definition ExactBytes :: "('w, 's, byte) Parser \<Rightarrow> byte list \<Rightarrow> ('w, 's, Empty) Parser" where
  "ExactBytes Byte_op token = (\<lambda>n w s. ExactBytes_loop Byte_op token n w s s)"

definition Sequence2 ::
  "'r \<Rightarrow> ('w, 's, 't) Parser \<Rightarrow> ('w, 's, 'u) Parser \<Rightarrow> ('t \<Rightarrow> 'u \<Rightarrow> 'r \<times> error option) \<Rightarrow>
   ('w, 's, 'r) Parser" where
  "Sequence2 zero tParser uParser mapper =
     (\<lambda>n w s.
        run_bind (tParser n w s) (\<lambda>(w1, t, next, err).
          if err \<noteq> None then Return (w1, zero, s, err)
          else
            run_bind (uParser n w1 s) (\<lambda>(w2, u, next, err).
              if err \<noteq> None then Return (w2, zero, s, err)
              else
                let (r, err) = mapper t u in
                if err \<noteq> None then Return (w2, zero, s, err)
                else Return (w2, r, next, None))))"

definition ConditionRune :: "('w, 's, rune) Parser \<Rightarrow> (rune \<Rightarrow> bool) \<Rightarrow> ('w, 's, rune) Parser" where
  "ConditionRune Rune_op cond =
     (\<lambda>n w s.
        run_bind (Rune_op n w s) (\<lambda>(w1, r, next, err).
          if err \<noteq> None then Return (w1, 0, s, err)
          else if \<not> cond r then Return (w1, 0, s, Some ErrNoMatch)
          else Return (w1, r, next, None)))"

definition GetString :: "('w, BufferState, 't) Parser \<Rightarrow> ('w, BufferState, byte list) Parser" where
  "GetString parser =
     (\<lambda>n w s.
        let start = buffer_offset s in
        run_bind (parser n w s) (\<lambda>(w1, t, next, err).
          if err \<noteq> None then Return (w1, [], s, err)
          else
            let end_offset = buffer_offset s in
            (case reslice (buffer s) (sint start) (sint end_offset) of
               None \<Rightarrow> Panic
             | Some captured \<Rightarrow> Return (w1, captured, next, None))))"

definition GetBytes :: "('w, BufferState, 't) Parser \<Rightarrow> ('w, BufferState, byte list) Parser" where
  "GetBytes parser =
     (\<lambda>n w s.
        let start = buffer_offset s in
        run_bind (parser n w s) (\<lambda>(w1, t, next, err).
          if err \<noteq> None then Return (w1, [], s, err)
          else
            let end_offset = buffer_offset s in
            if sint (end_offset - start) < 0 then Panic
            else
              (case reslice (buffer s) (sint start) (sint end_offset) of
                 None \<Rightarrow> Panic
               | Some captured \<Rightarrow>
                   Return (w1, fst (copy_at (replicate (nat (sint (end_offset - start))) 0) 0 captured),
                           next, None))))"

definition zero_Position :: Position where
  "zero_Position = \<lparr>Offset = 0, Line = 0, Column = 0\<rparr>"

definition GetPositions ::
  "('s \<Rightarrow> Position) \<Rightarrow> ('w, 's, 't) Parser \<Rightarrow> ('w, 's, Position \<times> Position) Parser" where
  "GetPositions Position_op parser =
     (\<lambda>n w s.
        let start = Position_op s in
        run_bind (parser n w s) (\<lambda>(w1, t, next, err).
          if err \<noteq> None then Return (w1, (zero_Position, zero_Position), s, err)
          else
            let end_pos = Position_op s in Return (w1, (start, end_pos), next, None)))"

section \<open>Full traversals and a finite source\<close>





primcorec stringsReader :: "byte list \<Rightarrow> reader" where
  "Read (stringsReader bs) =
     (\<lambda>n. if bs = [] then ([], Some io_EOF, stringsReader bs)
          else (take n bs, None, stringsReader (drop n bs)))"

definition empty_world :: "reader \<Rightarrow> world" where
  "empty_world rd = \<lparr>arrays = [], nodes = [], source = rd\<rparr>"

text \<open>
  \<open>k\<close> successive reads, each from the state the one before returned; anything but a
  read without error stops the run.
\<close>

fun read_runes :: "nat \<Rightarrow> nat \<Rightarrow> world \<Rightarrow> State \<Rightarrow> (world \<times> State) run" where
  "read_runes 0 n w s = Return (w, s)"
| "read_runes (Suc k) n w s =
     run_bind (Rune n w s) (\<lambda>(w1, r, s1, err).
       if err = None then read_runes k n w1 s1 else Panic)"

fun read_bytes :: "nat \<Rightarrow> nat \<Rightarrow> world \<Rightarrow> State \<Rightarrow> (world \<times> State) run" where
  "read_bytes 0 n w s = Return (w, s)"
| "read_bytes (Suc k) n w s =
     run_bind (Byte n w s) (\<lambda>(w1, b, s1, err).
       if err = None then read_bytes k n w1 s1 else Panic)"

section \<open>Growth of the store\<close>




section \<open>Writes by the caller\<close>

text \<open>
  What a caller who kept the slice \<^verbatim>\<open>b\<close> can do to the store afterwards: leave other
  contents in the backing array of \<^verbatim>\<open>b\<close>. \<open>run_result\<close> is what a call hands back,
  without the store.
\<close>

definition overwrite :: "world \<Rightarrow> nat \<Rightarrow> byte list \<Rightarrow> world" where
  "overwrite w arr xs = w\<lparr>arrays := (arrays w)[arr := xs]\<rparr>"

definition run_result :: "(world \<times> 'a) run \<Rightarrow> 'a run" where
  "run_result m = run_bind m (\<lambda>(w, x). Return x)"

section \<open>Concrete inputs\<close>

text \<open>
  The text \<^verbatim>\<open>"1234abcd5678efgh90"\<close> of the capture test, and the state \<^verbatim>\<open>DoParse\<close>
  builds over an input.
\<close>

definition capture_text :: "byte list" where
  "capture_text =
     [0x31, 0x32, 0x33, 0x34, 0x61, 0x62, 0x63, 0x64, 0x35, 0x36, 0x37, 0x38,
      0x65, 0x66, 0x67, 0x68, 0x39, 0x30]"

definition buffer_state :: "byte list \<Rightarrow> BufferState" where
  "buffer_state input = \<lparr>buffer = input, buffer_offset = 0, lineCount = 0, lineOffset = 0\<rparr>"

text \<open>
  \<^verbatim>\<open>"a"\<close>, \<^verbatim>\<open>"b"\<close>, \<^verbatim>\<open>"ab"\<close>, \<^verbatim>\<open>"foo"\<close>, \<^verbatim>\<open>"bar"\<close>, \<^verbatim>\<open>"foobaz"\<close>; the text
  \<^verbatim>\<open>"1234567"\<close> plus U+221E of the split-rune test (the last character is E2 88 9E, so that
  a chunk of eight bytes ends after its first byte), the same text followed by the
  invalid byte FF, and the encoding EF BF BD of \<^verbatim>\<open>utf8.RuneError\<close>; the zero value
  \<^verbatim>\<open>State{}\<close> of the in-memory cursor.
\<close>

definition text_a :: "byte list" where
  "text_a = [0x61]"

definition text_b :: "byte list" where
  "text_b = [0x62]"

definition text_ab :: "byte list" where
  "text_ab = [0x61, 0x62]"

definition text_foo :: "byte list" where
  "text_foo = [0x66, 0x6F, 0x6F]"

definition text_bar :: "byte list" where
  "text_bar = [0x62, 0x61, 0x72]"

definition text_foobaz :: "byte list" where
  "text_foobaz = [0x66, 0x6F, 0x6F, 0x62, 0x61, 0x7A]"

definition split_text :: "byte list" where
  "split_text = [0x31, 0x32, 0x33, 0x34, 0x35, 0x36, 0x37, 0xE2, 0x88, 0x9E]"

definition split_then_bad :: "byte list" where
  "split_then_bad = split_text @ [0xFF]"

definition encoded_RuneError :: "byte list" where
  "encoded_RuneError = [0xEF, 0xBF, 0xBD]"

definition zero_BufferState :: BufferState where
  "zero_BufferState = \<lparr>buffer = [], buffer_offset = 0, lineCount = 0, lineOffset = 0\<rparr>"




text \<open>
  A store with one array \<open>[1, 2, 3, 4]\<close> and the slice of all of it, the store and state
  that \<^verbatim>\<open>NewStateBytes\<close> makes of them, and, for contrast, a store whose node shares the
  caller's array (what \<^verbatim>\<open>d.buf = b\<close> would have built).
\<close>

definition copy_world :: world where
  "copy_world = \<lparr>arrays = [[1, 2, 3, 4]], nodes = [], source = stringsReader []\<rparr>"

definition copy_slice :: slice where
  "copy_slice = \<lparr>slice_arr = 0, slice_off = 0, slice_len = 4, slice_cap = 4\<rparr>"

definition copy_world_made :: world where
  "copy_world_made =
     \<lparr>arrays = [[1, 2, 3, 4], [1, 2, 3, 4]],
      nodes = [\<lparr>data_r = False, data_err = None,
                data_buf = \<lparr>slice_arr = 1, slice_off = 0, slice_len = 4, slice_cap = 4\<rparr>,
                data_next = None\<rparr>],
      source = stringsReader []\<rparr>"

definition copy_state :: State where
  "copy_state = zero_State\<lparr>data := Some 0\<rparr>"

definition alias_world :: world where
  "alias_world =
     \<lparr>arrays = [[1, 2, 3, 4]],
      nodes = [\<lparr>data_r = False, data_err = None,
                data_buf = \<lparr>slice_arr = 0, slice_off = 0, slice_len = 4, slice_cap = 4\<rparr>,
                data_next = None\<rparr>],
      source = stringsReader []\<rparr>"




section \<open>Evaluation rules\<close>

lemmas utf8_defs = DecodeRune_def first_def acceptRanges_def utf8_RuneError_def

lemmas buffer_defs = BufferState_Rune_def BufferState_Byte_def BufferState_consume_def
  BufferState_Rune_op_def BufferState_Byte_op_def reslice_def run_bind_def buffer_state_def

lemma string_runes_capture_text: "string_runes capture_text = map ucast capture_text"
  by (simp add: capture_text_def utf8_defs)

lemmas text_defs = text_a_def text_b_def text_ab_def text_foo_def text_bar_def text_foobaz_def

lemma string_runes_ascii:
  "string_runes text_a = [0x61]"
  "string_runes text_b = [0x62]"
  "string_runes text_foo = [0x66, 0x6F, 0x6F]"
  by (simp_all add: text_defs utf8_defs)

lemma run_bind_simps:
  "run_bind (Return x) f = f x"
  "run_bind Panic f = Panic"
  "run_bind OutOfFuel f = OutOfFuel"
  by (simp_all add: run_bind_def)

lemma run_bind_weak_cong: "m = m' \<Longrightarrow> run_bind m f = run_bind m' f"
  by simp

lemma read_runes_numeral:
  "read_runes (numeral k) n w s =
     run_bind (Rune n w s) (\<lambda>(w1, r, s1, err).
       if err = None then read_runes (pred_numeral k) n w1 s1 else Panic)"
  by (simp add: numeral_eq_Suc)

lemma read_bytes_numeral:
  "read_bytes (numeral k) n w s =
     run_bind (Byte n w s) (\<lambda>(w1, b, s1, err).
       if err = None then read_bytes (pred_numeral k) n w1 s1 else Panic)"
  by (simp add: numeral_eq_Suc)



lemma replicate_numeral_unfold: "replicate (numeral k) x = x # replicate (pred_numeral k) x"
  by (simp add: numeral_eq_Suc)

lemma Byte_numeral: "Byte (numeral k) w s = Byte_body (Byte (pred_numeral k)) w s"
  by (simp add: numeral_eq_Suc)

lemma Rune_numeral: "Rune (numeral k) w s = Rune_body (Rune (pred_numeral k)) w s"
  by (simp add: numeral_eq_Suc)

lemmas store_defs = node_at_def slice_bytes_def slice_full_def set_next_def alloc_bytes_def
  alloc_data_def newDataString_def newDataBytes_def newDataReaderSize_def minDataSize_def
  extend_chain_def copy_at_def empty_world_def

lemmas state_defs = zero_State_def NewStateString_def NewStateBytes_def NewStateReaderSize_def
  State_Line_def State_Column_def State_Position_def nextDataState_def consume_def
  Byte_body_def Rune_body_def Rune_across_def node_next_def node_buf_def

lemmas eval_simps = read_runes_numeral read_bytes_numeral store_defs state_defs utf8_defs
  run_bind_simps split_text_def split_then_bad_def encoded_RuneError_def

section \<open>Span capture\<close>

text \<open>
  C1 (code defect). The claim: on success \<^verbatim>\<open>GetString\<close> and \<^verbatim>\<open>GetBytes\<close> return the bytes
  the wrapped parser consumed. Both read the end of the span from the state they were
  given (\<^verbatim>\<open>end := s.offset\<close>), not from the state the parser returned: over the input
  \<^verbatim>\<open>"1234abcd5678efgh90"\<close>, with a parser that matches all eighteen bytes and leaves
  the cursor at offset 18, both capture the empty sequence.
\<close>

theorem GetString_captures_nothing:
  "GetString (ExactString BufferState_Rune_op capture_text) 0 () (buffer_state capture_text)
     = Return ((), [], (buffer_state capture_text)\<lparr>buffer_offset := 18\<rparr>, None)
   \<and> GetBytes (ExactString BufferState_Rune_op capture_text) 0 () (buffer_state capture_text)
     = Return ((), [], (buffer_state capture_text)\<lparr>buffer_offset := 18\<rparr>, None)"
  by (simp add: GetString_def GetBytes_def ExactString_def string_runes_capture_text
      buffer_defs capture_text_def utf8_defs copy_at_def)

section \<open>Sequencing\<close>

text \<open>
  C2 (code defect). The claim: \<^verbatim>\<open>AndThen\<close> and \<^verbatim>\<open>Sequence2\<close> run the second parser from
  the state the first one produced. \<^verbatim>\<open>AndThen\<close> does; \<^verbatim>\<open>Sequence2\<close> calls
  \<^verbatim>\<open>uParser(s)\<close> on the entry state. Over the input \<^verbatim>\<open>"ab"\<close>, the sequence of
  \<^verbatim>\<open>"a"\<close> and \<^verbatim>\<open>"a"\<close> succeeds and returns the state after a single byte, and the
  sequence of \<^verbatim>\<open>"a"\<close> and \<^verbatim>\<open>"b"\<close> fails with \<^verbatim>\<open>ErrNoMatch\<close>.
\<close>

theorem Sequence2_restarts_second_parser:
  "Sequence2 Empty (ExactString BufferState_Rune_op text_a) (ExactString BufferState_Rune_op text_a)
       (\<lambda>t u. (Empty, None)) 0 () (buffer_state text_ab)
     = Return ((), Empty, (buffer_state text_ab)\<lparr>buffer_offset := 1\<rparr>, None)
   \<and> Sequence2 Empty (ExactString BufferState_Rune_op text_a) (ExactString BufferState_Rune_op text_b)
       (\<lambda>t u. (Empty, None)) 0 () (buffer_state text_ab)
     = Return ((), Empty, buffer_state text_ab, Some ErrNoMatch)"
  by (simp add: Sequence2_def ExactString_def string_runes_ascii buffer_defs text_defs utf8_defs)

text \<open>
  C5 (code defect). The claim: a combinator that fails returns the state it was given.
  \<^verbatim>\<open>AndThen\<close> restores the entry state only when its first parser fails; when the
  parser made by the handler fails, \<^verbatim>\<open>AndThen\<close> returns what that parser returns.
  Over \<^verbatim>\<open>"foobaz"\<close>, \<^verbatim>\<open>"foo"\<close> followed by \<^verbatim>\<open>"bar"\<close> fails with \<^verbatim>\<open>ErrNoMatch\<close> and
  the returned state stands at offset 3, after \<^verbatim>\<open>"foo"\<close>.
\<close>

theorem AndThen_failure_returns_advanced_state:
  "AndThen Empty (ExactString BufferState_Rune_op text_foo)
       (\<lambda>t. ExactBytes BufferState_Byte_op text_bar) 0 () (buffer_state text_foobaz)
     = Return ((), Empty, (buffer_state text_foobaz)\<lparr>buffer_offset := 3\<rparr>, Some ErrNoMatch)"
  by (simp add: AndThen_def ExactString_def ExactBytes_def string_runes_ascii buffer_defs
      text_defs utf8_defs)

section \<open>Decoding\<close>

text \<open>
  C3 (code defect). The claim: a well-formed encoding of U+FFFD decodes as one scalar
  value. \<^verbatim>\<open>Rune\<close> tests only \<^verbatim>\<open>r == utf8.RuneError\<close>, without the width, so the bytes
  EF BF BD are reported as \<^verbatim>\<open>RuneError\<close> at the position of the read and the state is
  returned unadvanced: both for an in-memory state and for a state over a reader (where
  the retry over the joined bytes gives U+FFFD again).
\<close>

theorem Rune_rejects_encoded_RuneError:
  "(case NewStateString (empty_world (stringsReader [])) encoded_RuneError of (w, s) \<Rightarrow>
      Rune 0 w s = Return (w, 0, s, Some (RuneError \<lparr>Offset = 0, Line = 1, Column = 1\<rparr>)))
   \<and> run_bind (NewStateReaderSize (empty_world (stringsReader encoded_RuneError)) 8) (\<lambda>(w, s).
      run_bind (Rune 0 w s) (\<lambda>(w1, r, s1, err). Return (r, s1 = s, err)))
     = Return (0, True, Some (RuneError \<lparr>Offset = 0, Line = 1, Column = 1\<rparr>))"
  by (simp add: eval_simps cong: run_bind_weak_cong)

text \<open>
  C4 (code defect). The claim: a successful read advances the offset by the bytes
  consumed, also for a rune that straddles two nodes. On that path \<^verbatim>\<open>Rune\<close> returns the
  state of \<^verbatim>\<open>nextDataState\<close>, which copies the offset, and sets only \<^verbatim>\<open>datap\<close>.
  Over \<^verbatim>\<open>"1234567"\<close> plus U+221E read in chunks of eight bytes, the eighth read returns the
  rune U+221E (three bytes) and a state in the second node at index 2 whose offset is
  still 7.
\<close>

theorem Rune_split_keeps_offset:
  "run_bind (NewStateReaderSize (empty_world (stringsReader split_text)) 8) (\<lambda>(w, s).
     run_bind (read_runes 7 0 w s) (\<lambda>(w7, s7).
     run_bind (Rune 0 w7 s7) (\<lambda>(w8, r, s8, err).
       Return (offset s7, r, err, offset s8, data s8, datap s8))))
   = Return (7, 0x221E, None, 7, Some 1, 2)"
  by (simp add: eval_simps cong: run_bind_weak_cong)

text \<open>
  C6 (code defect, the one of C4). The claim: \<^verbatim>\<open>RuneError\<close> carries the position of the
  first byte of the malformed sequence. It carries the position of the state, and after
  a rune that straddled two nodes that position is stale. In \<^verbatim>\<open>"1234567"\<close> plus U+221E
  followed by the byte FF, the byte FF is at offset 10: reached by eight \<^verbatim>\<open>Rune\<close> reads
  the error says offset 7, column 8; reached by ten \<^verbatim>\<open>Byte\<close> reads, the same place
  (second node, index 2) gives offset 10, column 11.
\<close>

theorem RuneError_position_after_split:
  "run_bind (NewStateReaderSize (empty_world (stringsReader split_then_bad)) 8) (\<lambda>(w, s).
     run_bind (read_runes 8 0 w s) (\<lambda>(w8, s8).
     run_bind (Rune 0 w8 s8) (\<lambda>(w9, r, s9, err). Return (data s8, datap s8, err))))
   = Return (Some 1, 2, Some (RuneError \<lparr>Offset = 7, Line = 1, Column = 8\<rparr>))
   \<and> run_bind (NewStateReaderSize (empty_world (stringsReader split_then_bad)) 8) (\<lambda>(w, s).
     run_bind (read_bytes 10 1 w s) (\<lambda>(w10, s10).
     run_bind (Rune 0 w10 s10) (\<lambda>(w11, r, s11, err). Return (data s10, datap s10, err))))
   = Return (Some 1, 2, Some (RuneError \<lparr>Offset = 10, Line = 1, Column = 11\<rparr>))"
  by (simp add: eval_simps cong: run_bind_weak_cong)

section \<open>Line and column\<close>

text \<open>
  C8 (code defect, the one of C4). The claim: positions are 1-based, a line feed starts
  a new line at column 1, anything else adds one to the column. \<^verbatim>\<open>consume\<close> does that,
  but the read of a rune that straddles two nodes does not go through \<^verbatim>\<open>consume\<close>:
  over \<^verbatim>\<open>"1234567"\<close> plus U+221E in chunks of eight bytes the position before and after the
  eighth read is the same, line 1, column 8. (The in-memory cursor, for its part,
  reports column 0 for a fresh state.)
\<close>

theorem Rune_split_keeps_column:
  "run_bind (NewStateReaderSize (empty_world (stringsReader split_text)) 8) (\<lambda>(w, s).
     run_bind (read_runes 7 0 w s) (\<lambda>(w7, s7).
     run_bind (Rune 0 w7 s7) (\<lambda>(w8, r, s8, err).
       Return (State_Position s7, r, err, State_Position s8))))
   = Return (\<lparr>Offset = 7, Line = 1, Column = 8\<rparr>, 0x221E, None,
             \<lparr>Offset = 7, Line = 1, Column = 8\<rparr>)
   \<and> BufferState_Position (buffer_state text_ab) = \<lparr>Offset = 0, Line = 1, Column = 0\<rparr>"
  by (simp add: eval_simps BufferState_Position_def BufferState_Line_def
      BufferState_Column_def buffer_state_def cong: run_bind_weak_cong)

section \<open>The zero state\<close>

text \<open>
  C9 (code defect). The claim: a read on a zero-constructed state panics. Both reads of
  the chunked cursor do (they dereference the nil \<^verbatim>\<open>data\<close>), and so does \<^verbatim>\<open>Byte\<close> of
  the in-memory cursor (index out of range). \<^verbatim>\<open>Rune\<close> of the in-memory cursor does not:
  slicing the nil buffer at 0 is legal, \<^verbatim>\<open>DecodeRune\<close> of nothing is
  \<open>(RuneError, 0)\<close>, and the call returns U+FFFD, the same state and a nil error.
\<close>

theorem BufferState_Rune_zero_state_returns:
  "BufferState_Rune zero_BufferState = Return (0xFFFD, zero_BufferState, None)
   \<and> BufferState_Byte zero_BufferState = Panic
   \<and> Rune n w zero_State = Panic
   \<and> Byte n w zero_State = Panic"
  by (cases n)
     (simp_all add: buffer_defs utf8_defs zero_BufferState_def Rune_body_def Byte_body_def
        zero_State_def)

section \<open>Reads in a store that has grown\<close>













lemma nextDataState_Return:
  "node_at w a = Some d \<Longrightarrow> data s = Some a \<Longrightarrow> data_next d = Some a1 \<Longrightarrow>
   nextDataState w s = Return (s\<lparr>data := Some a1, datap := 0\<rparr>)"
  by (simp add: nextDataState_def)


























section \<open>The copy made by \<^verbatim>\<open>NewStateBytes\<close>\<close>

lemma NewStateBytes_Return:
  assumes "NewStateBytes w b = Return (w1, s)"
  obtains bs where "slice_bytes w b = Some bs"
    and "slice_arr b < length (arrays w)"
    and "data s = Some (length (nodes w))"
    and "w1 = w\<lparr>arrays := arrays w @ [bs], 
          nodes := nodes w @ [\<lparr>data_r = False, data_err = None,
             data_buf = \<lparr>slice_arr = length (arrays w), slice_off = 0, slice_len = length bs,
                         slice_cap = length bs\<rparr>, data_next = None\<rparr>]\<rparr>"
proof -
  from assms obtain bs where bs: "slice_bytes w b = Some bs"
    by (auto simp: NewStateBytes_def newDataBytes_def run_bind_def split: option.splits)
  then have "slice_arr b < length (arrays w)"
    by (auto simp: slice_bytes_def split: if_splits)
  moreover from assms bs have "data s = Some (length (nodes w))"
    by (auto simp: NewStateBytes_def newDataBytes_def run_bind_def alloc_bytes_def alloc_data_def
        zero_State_def Let_def)
  moreover from assms bs have "w1 = w\<lparr>arrays := arrays w @ [bs], 
          nodes := nodes w @ [\<lparr>data_r = False, data_err = None,
             data_buf = \<lparr>slice_arr = length (arrays w), slice_off = 0, slice_len = length bs,
                         slice_cap = length bs\<rparr>, data_next = None\<rparr>]\<rparr>"
    by (auto simp: NewStateBytes_def newDataBytes_def run_bind_def alloc_bytes_def alloc_data_def
        copy_at_def Let_def)
  ultimately show ?thesis using bs that by blast
qed

lemma Byte_last_node:
  assumes "data s = Some a" and "node_at w a = Some d" and "slice_bytes w (data_buf d) = Some bs"
    and "\<not> data_r d" and "data_next d = None"
  shows "run_result (Byte n w s) =
     (if datap s < int (length bs) then
        (if datap s < 0 then Panic
         else Return (bs ! nat (datap s), consume s 1 (ucast (bs ! nat (datap s)))))
      else Return (0, s, Some io_EOF))"
  using assms by (cases n) (simp_all add: Byte_body_def run_result_def run_bind_def Let_def split: prod.splits)

lemma Rune_last_node:
  assumes "data s = Some a" and "node_at w a = Some d" and "slice_bytes w (data_buf d) = Some bs"
    and "\<not> data_r d" and "data_next d = None"
  shows "run_result (Rune n w s) =
     (if datap s < int (length bs) then
        (if datap s < 0 then Panic
         else
           let (r, rs) = DecodeRune (drop (nat (datap s)) bs) in
           if r = utf8_RuneError then Return (0, s, Some (RuneError (State_Position s)))
           else Return (r, consume s (int rs) r))
      else Return (0, s, Some io_EOF))"
  using assms by (cases n) (simp_all add: Rune_body_def run_result_def run_bind_def Let_def split: prod.splits)

lemma keepBytes_same_node:
  assumes "data s = Some a" and "data s' = Some a" and "node_at w a = Some d"
    and "slice_full w (data_buf d) = Some full"
  shows "keepBytes k w s s' = slice_expr full (datap s) (datap s')"
  using assms by (simp add: keepBytes_def State_buf_full_def run_bind_def)

text \<open>
  C10. \<^verbatim>\<open>NewStateBytes\<close> copies its argument into a fresh array: whatever is written
  afterwards to the backing array of \<^verbatim>\<open>b\<close>, every state on the node that was made
  (the state returned and the states derived from it) reads the same byte and the same
  rune, with the same next state and error, and captures the same span as without the
  write.
\<close>

theorem NewStateBytes_copies:
  assumes made: "NewStateBytes w b = Return (w1, s)"
    and s1: "data s1 = data s" and s2: "data s2 = data s"
  shows "run_result (Byte n (overwrite w1 (slice_arr b) xs) s1) = run_result (Byte n w1 s1)
     \<and> run_result (Rune n (overwrite w1 (slice_arr b) xs) s1) = run_result (Rune n w1 s1)
     \<and> keepBytes k (overwrite w1 (slice_arr b) xs) s1 s2 = keepBytes k w1 s1 s2"
proof -
  from made obtain bs where arr: "slice_arr b < length (arrays w)"
    and a: "data s = Some (length (nodes w))"
    and w1: "w1 = w\<lparr>arrays := arrays w @ [bs], 
          nodes := nodes w @ [\<lparr>data_r = False, data_err = None,
             data_buf = \<lparr>slice_arr = length (arrays w), slice_off = 0, slice_len = length bs,
                         slice_cap = length bs\<rparr>, data_next = None\<rparr>]\<rparr>"
    by (rule NewStateBytes_Return)
  define d where "d = \<lparr>data_r = False, data_err = None,
             data_buf = \<lparr>slice_arr = length (arrays w), slice_off = 0, slice_len = length bs,
                         slice_cap = length bs\<rparr>, data_next = None\<rparr>"
  define w2 where "w2 = overwrite w1 (slice_arr b) xs"
  have n1: "node_at w1 (length (nodes w)) = Some d" and n2: "node_at w2 (length (nodes w)) = Some d"
    by (simp_all add: w1 w2_def d_def node_at_def overwrite_def)
  have b1: "slice_bytes w1 (data_buf d) = Some bs" and f1: "slice_full w1 (data_buf d) = Some bs"
    by (simp_all add: w1 d_def slice_bytes_def slice_full_def)
  have b2: "slice_bytes w2 (data_buf d) = Some bs" and f2: "slice_full w2 (data_buf d) = Some bs"
    using arr by (simp_all add: w1 w2_def d_def slice_bytes_def slice_full_def overwrite_def nth_append)
  have last: "\<not> data_r d" "data_next d = None" by (simp_all add: d_def)
  have a1: "data s1 = Some (length (nodes w))" and a2: "data s2 = Some (length (nodes w))"
    using a s1 s2 by simp_all
  have "run_result (Byte n w2 s1) = run_result (Byte n w1 s1)"
    by (simp only: Byte_last_node[OF a1 n1 b1 last] Byte_last_node[OF a1 n2 b2 last])
  moreover have "run_result (Rune n w2 s1) = run_result (Rune n w1 s1)"
    by (simp only: Rune_last_node[OF a1 n1 b1 last] Rune_last_node[OF a1 n2 b2 last])
  moreover have "keepBytes k w2 s1 s2 = keepBytes k w1 s1 s2"
    by (simp only: keepBytes_same_node[OF a1 a2 n1 f1] keepBytes_same_node[OF a1 a2 n2 f2])
  ultimately show ?thesis by (simp add: w2_def)
qed


lemmas copy_defs = copy_world_def copy_slice_def copy_world_made_def copy_state_def
  alias_world_def overwrite_def run_result_def

lemma copy_made: "NewStateBytes copy_world copy_slice = Return (copy_world_made, copy_state)"
  by (simp add: copy_defs eval_simps replicate_numeral_unfold)

lemma copy_read:
  "run_result (Byte 0 copy_world_made copy_state)
     = Return (1, copy_state\<lparr>datap := 1, offset := 1, column := 1\<rparr>, None)"
  by (simp add: copy_defs eval_simps)

lemma copy_span:
  "keepBytes 0 copy_world_made copy_state (copy_state\<lparr>datap := 4\<rparr>) = Return [1, 2, 3, 4]"
  by (simp add: copy_defs eval_simps keepBytes_def State_buf_full_def slice_expr_def reslice_def)

lemma aliased_node_sees_write:
  "run_result (Byte 0 alias_world copy_state)
     = Return (1, copy_state\<lparr>datap := 1, offset := 1, column := 1\<rparr>, None)
   \<and> run_result (Byte 0 (overwrite alias_world 0 [9, 9, 9, 9]) copy_state)
     = Return (9, copy_state\<lparr>datap := 1, offset := 1, column := 1\<rparr>, None)"
  by (simp add: copy_defs eval_simps)

theorem NewStateBytes_copies_witness:
  "NewStateBytes copy_world copy_slice = Return (copy_world_made, copy_state)
   \<and> run_result (Byte 0 (overwrite copy_world_made (slice_arr copy_slice) [9, 9, 9, 9]) copy_state)
       = Return (1, copy_state\<lparr>datap := 1, offset := 1, column := 1\<rparr>, None)
   \<and> run_result (Rune 0 (overwrite copy_world_made (slice_arr copy_slice) [9, 9, 9, 9]) copy_state)
       = run_result (Rune 0 copy_world_made copy_state)
   \<and> keepBytes 0 (overwrite copy_world_made (slice_arr copy_slice) [9, 9, 9, 9]) copy_state
         (copy_state\<lparr>datap := 4\<rparr>)
       = Return [1, 2, 3, 4]"
proof -
  have same: "data (copy_state\<lparr>datap := 4\<rparr>) = data copy_state" by simp
  from NewStateBytes_copies[OF copy_made refl same, of 0 "[9, 9, 9, 9]" 0]
  show ?thesis using copy_made copy_read copy_span by simp
qed

section \<open>The paths that keep the contract\<close>

text \<open>
  Beside the defects above, what the same code does where it is right. Every combinator
  other than \<^verbatim>\<open>AndThen\<close> returns the entry state with any failure, and \<^verbatim>\<open>AndThen\<close>
  does so when its first parser fails; on success of the first parser \<^verbatim>\<open>AndThen\<close>
  runs the handler's parser from the state the first one returned.
\<close>

lemma run_bind_Return_iff:
  "run_bind m f = Return y \<longleftrightarrow> (\<exists>x. m = Return x \<and> f x = Return y)"
  by (cases m) (simp_all add: run_bind_def)

lemma ExactString_loop_failure:
  "ExactString_loop Rune_op ts n w s nxt = Return (w', v, s', Some e) \<Longrightarrow> s' = s"
proof (induction ts arbitrary: w nxt)
  case Nil
  then show ?case by simp
next
  case (Cons t ts)
  from Cons.prems obtain w1 r nxt1 err where
    rest: "(if err \<noteq> None then Return (w1, Empty, s, err)
            else if t \<noteq> r then Return (w1, Empty, s, Some ErrNoMatch)
            else ExactString_loop Rune_op ts n w1 s nxt1) = Return (w', v, s', Some e)"
    by (auto simp: run_bind_Return_iff)
  then show ?case using Cons.IH by (auto split: if_splits)
qed

lemma ExactBytes_loop_failure:
  "ExactBytes_loop Byte_op ts n w s nxt = Return (w', v, s', Some e) \<Longrightarrow> s' = s"
proof (induction ts arbitrary: w nxt)
  case Nil
  then show ?case by simp
next
  case (Cons t ts)
  from Cons.prems obtain w1 b nxt1 err where
    rest: "(if err \<noteq> None then Return (w1, Empty, s, err)
            else if t \<noteq> b then Return (w1, Empty, s, Some ErrNoMatch)
            else ExactBytes_loop Byte_op ts n w1 s nxt1) = Return (w', v, s', Some e)"
    by (auto simp: run_bind_Return_iff)
  then show ?case using Cons.IH by (auto split: if_splits)
qed

lemma ExactString_failure:
  "ExactString Rune_op token n w s = Return (w', v, s', Some e) \<Longrightarrow> s' = s"
  unfolding ExactString_def by (rule ExactString_loop_failure)

lemma ExactBytes_failure:
  "ExactBytes Byte_op token n w s = Return (w', v, s', Some e) \<Longrightarrow> s' = s"
  unfolding ExactBytes_def by (rule ExactBytes_loop_failure)

lemma ConditionRune_failure:
  "ConditionRune Rune_op cond n w s = Return (w', v, s', Some e) \<Longrightarrow> s' = s"
  by (auto simp: ConditionRune_def run_bind_Return_iff split: if_splits)


lemma Sequence2_failure:
  "Sequence2 zero tParser uParser mapper n w s = Return (w', v, s', Some e) \<Longrightarrow> s' = s"
  by (auto simp: Sequence2_def run_bind_Return_iff Let_def case_prod_beta split: if_splits)

lemma GetString_failure:
  "GetString parser n w s = Return (w', v, s', Some e) \<Longrightarrow> s' = s"
  by (auto simp: GetString_def run_bind_Return_iff Let_def split: if_splits option.splits)

lemma GetBytes_failure:
  "GetBytes parser n w s = Return (w', v, s', Some e) \<Longrightarrow> s' = s"
  by (auto simp: GetBytes_def run_bind_Return_iff Let_def split: if_splits option.splits)

lemma GetPositions_failure:
  "GetPositions Position_op parser n w s = Return (w', v, s', Some e) \<Longrightarrow> s' = s"
  by (auto simp: GetPositions_def run_bind_Return_iff Let_def split: if_splits)

lemma AndThen_first_failure:
  "parser n w s = Return (w1, t, nxt, Some e) \<Longrightarrow>
   AndThen zero parser handler n w s = Return (w1, zero, s, Some e)"
  by (simp add: AndThen_def run_bind_def)

lemma AndThen_continues_from_next:
  "parser n w s = Return (w1, t, nxt, None) \<Longrightarrow>
   AndThen zero parser handler n w s = handler t n w1 nxt"
  by (simp add: AndThen_def run_bind_def)


text \<open>
  Every successful \<^verbatim>\<open>Byte\<close>, on whatever node it finds its byte, adds one to the offset
  and keeps line and column as \<^verbatim>\<open>consume\<close> does; a \<^verbatim>\<open>Rune\<close> decoded inside one node
  adds its width to the offset. A rune decoded across two nodes leaves offset, line and
  column as they were, whatever the input.
\<close>

lemma nextDataState_fields:
  "nextDataState w s = Return s1 \<Longrightarrow>
   offset s1 = offset s \<and> line s1 = line s \<and> column s1 = column s"
  by (auto simp: nextDataState_def split: option.splits)

lemma consume_position:
  "offset (fst (consume s k v)) = offset s + word_of_int k"
  "line (fst (consume s k v)) = (if v = 0x0A then line s + 1 else line s)"
  "column (fst (consume s k v)) = (if v = 0x0A then 0 else column s + 1)"
  by (simp_all add: consume_def Let_def)

lemma Byte_body_position:
  assumes rec: "\<And>w1 s1 w2 b2 s2. rec w1 s1 = Return (w2, b2, s2, None) \<Longrightarrow>
      offset s2 = offset s1 + 1 \<and>
      line s2 = (if (ucast b2 :: rune) = 0x0A then line s1 + 1 else line s1) \<and>
      column s2 = (if (ucast b2 :: rune) = 0x0A then 0 else column s1 + 1)"
    and run: "Byte_body rec w s = Return (w', b, s', None)"
  shows "offset s' = offset s + 1 \<and>
      line s' = (if (ucast b :: rune) = 0x0A then line s + 1 else line s) \<and>
      column s' = (if (ucast b :: rune) = 0x0A then 0 else column s + 1)"
proof -
  from run obtain a d bs where a: "data s = Some a" and d: "node_at w a = Some d"
    and bs: "slice_bytes w (data_buf d) = Some bs"
    by (auto simp: Byte_body_def split: option.splits)
  consider (read) "datap s < int (length bs)"
    | (extend) "\<not> datap s < int (length bs)" "data_r d" "data_next d = None"
    | (follow) "\<not> datap s < int (length bs)" "data_next d \<noteq> None"
    | (eof) "\<not> datap s < int (length bs)" "\<not> data_r d" "data_next d = None"
    by auto
  then show ?thesis
  proof cases
    case read
    with run a d bs have "s' = fst (consume s 1 (ucast b))"
      by (auto simp: Byte_body_def Let_def case_prod_beta split: if_splits)
    then show ?thesis by (simp add: consume_position)
  next
    case extend
    with run a d bs obtain w1 s1 where nx: "nextDataState w1 s = Return s1"
      and r: "rec w1 s1 = Return (w', b, s', None)"
      by (auto simp: Byte_body_def run_bind_Return_iff)
    from rec[OF r] nextDataState_fields[OF nx] show ?thesis by simp
  next
    case follow
    with run a d bs obtain s1 where nx: "nextDataState w s = Return s1"
      and r: "rec w s1 = Return (w', b, s', None)"
      by (auto simp: Byte_body_def run_bind_Return_iff)
    from rec[OF r] nextDataState_fields[OF nx] show ?thesis by simp
  next
    case eof
    with run a d bs show ?thesis by (simp add: Byte_body_def)
  qed
qed

lemma Byte_position:
  "Byte n w s = Return (w', b, s', None) \<Longrightarrow>
   offset s' = offset s + 1 \<and>
   line s' = (if (ucast b :: rune) = 0x0A then line s + 1 else line s) \<and>
   column s' = (if (ucast b :: rune) = 0x0A then 0 else column s + 1)"
proof (induction n arbitrary: w s w' b s')
  case 0
  show ?case
  proof (rule Byte_body_position)
    show "Byte_body (\<lambda>w1 s1. OutOfFuel) w s = Return (w', b, s', None)" using 0 by simp
  qed simp
next
  case (Suc n)
  show ?case
  proof (rule Byte_body_position)
    show "Byte_body (Byte n) w s = Return (w', b, s', None)" using Suc.prems by simp
  next
    fix w1 s1 w2 b2 s2
    assume "Byte n w1 s1 = Return (w2, b2, s2, None)"
    then show "offset s2 = offset s1 + 1 \<and>
      line s2 = (if (ucast b2 :: rune) = 0x0A then line s1 + 1 else line s1) \<and>
      column s2 = (if (ucast b2 :: rune) = 0x0A then 0 else column s1 + 1)"
      by (rule Suc.IH)
  qed
qed



lemma Rune_across_keeps_position:
  assumes "Rune_across w a s bs = Return (r, s', None)"
  shows "offset s' = offset s \<and> line s' = line s \<and> column s' = column s"
proof -
  from assms obtain nbs where
    "(let nextDataPMax = min (length nbs) 6;
          runeBytes = drop (nat (datap s)) bs @ take nextDataPMax nbs;
          (r, rs) = DecodeRune runeBytes
      in if r = utf8_RuneError then Return (0, s, Some (RuneError (State_Position s)))
         else run_bind (nextDataState w s) (\<lambda>nextState.
             Return (r, nextState\<lparr>datap := int rs - (int (length bs) - datap s)\<rparr>, None)))
     = Return (r, s', None)"
    by (auto simp: Rune_across_def run_bind_Return_iff)
  then obtain nextState rs where nx: "nextDataState w s = Return nextState"
    and s': "s' = nextState\<lparr>datap := int rs - (int (length bs) - datap s)\<rparr>"
    by (auto simp: Let_def case_prod_beta run_bind_Return_iff split: if_splits)
  from nextDataState_fields[OF nx] s' show ?thesis by simp
qed

section \<open>Replay of full traversals\<close>


























end
